theory Spec2Isabelle
  imports Main "HOL-Library.Sublist" "HOL-Library.AList"
begin

section \<open>Automatic root-patch detection and the launch-agent installer\<close>

text \<open>
  A shallow embedding of \<^verbatim>\<open>resources/sys_patch/sys_patch_auto.py\<close>, class
  \<^verbatim>\<open>AutomaticSysPatch\<close>. Every call that leaves the class (update check, seal check,
  patch detection, dialogs, disk utilities, the preference store, elevated commands) is
  recorded as an event of a trace, in program order, and its answer is read from a record
  of probe results. The one attribute of \<^verbatim>\<open>self.constants\<close> that the class writes,
  \<^verbatim>\<open>start_build_install\<close>, is threaded through explicitly together with the trace.
\<close>

subsection \<open>Python string operations\<close>

text \<open>\<^verbatim>\<open>s.startswith(p)\<close> is \<^const>\<open>prefix\<close> and \<^verbatim>\<open>a in b\<close> on strings is
  \<^const>\<open>sublist\<close> (a contiguous occurrence); both come with code equations.\<close>

definition startswith :: "string \<Rightarrow> string \<Rightarrow> bool" where
  "startswith s p = prefix p s"

definition str_in :: "string \<Rightarrow> string \<Rightarrow> bool" where
  "str_in a b = sublist a b"

text \<open>\<^verbatim>\<open>s.strip(chars)\<close> removes, from both ends, every character that occurs in
  \<^verbatim>\<open>chars\<close>.\<close>

definition py_strip :: "string \<Rightarrow> string \<Rightarrow> string" where
  "py_strip s chars =
     rev (dropWhile (\<lambda>c. c \<in> set chars) (rev (dropWhile (\<lambda>c. c \<in> set chars) s)))"

text \<open>\<^verbatim>\<open>s.split(sep)\<close>: the pieces between the occurrences of \<^verbatim>\<open>sep\<close>, scanned
  from the left. The accumulator holds the piece being read. Python raises
  \<^verbatim>\<open>ValueError\<close> for an empty separator; the class only splits on literals that are not
  empty, and here an empty separator splits nothing.\<close>

function split_acc :: "string \<Rightarrow> string \<Rightarrow> string \<Rightarrow> string list" where
  "split_acc sep acc [] = [acc]"
| "split_acc sep acc (c # cs) =
     (if sep \<noteq> [] \<and> prefix sep (c # cs)
      then acc # split_acc sep [] (drop (length sep) (c # cs))
      else split_acc sep (acc @ [c]) cs)"
  by pat_completeness auto
termination
  by (relation "measure (\<lambda>(sep, acc, s). length s)") (auto simp: neq_Nil_conv)

definition py_split :: "string \<Rightarrow> string \<Rightarrow> string list" where
  "py_split s sep = split_acc sep [] s"

definition newline :: string where
  "newline = [CHR 0x0A]"

subsection \<open>Data\<close>

datatype entry_point = UPDATE_APP | BUILD_OC

datatype wx_id = ID_YES | ID_NO | ID_CANCEL

text \<open>The dictionary returned by \<^verbatim>\<open>check_binary_updates\<close>: the two keys that are read.\<close>

record update_info =
  Version :: string
  Github_Link :: string

text \<open>The dictionary returned by \<^verbatim>\<open>detect_patch_set\<close>, in insertion order: patch
  names, \<^verbatim>\<open>Settings: ...\<close> and \<^verbatim>\<open>Validation: ...\<close> keys, each with a boolean.\<close>

type_synonym patch_report = "(string \<times> bool) list"

text \<open>The attributes of \<^verbatim>\<open>self.constants\<close> that the class reads.\<close>

record constants =
  wxpython_variant :: bool
  patcher_version :: string
  special_build :: bool
  host_is_hackintosh :: bool
  booted_oc_disk :: "string option"
  oclp_version :: "string option"
  real_model :: string
  launcher_binary :: string
  launcher_script :: "string option"
  auto_patch_launch_agent_path :: string
  rsr_monitor_launch_daemon_path :: string

text \<open>The answers of the collaborators during one cycle. A dialog answers with the exit
  status of \<^verbatim>\<open>osascript\<close> (0 when the user accepts) or with the button of the wx dialog.
  \<^verbatim>\<open>read_property\<close> gives \<^verbatim>\<open>None\<close> for a property that is not set. The reply of
  \<^verbatim>\<open>diskutil info -plist\<close> is the dictionary of its boolean keys, of which the code reads
  \<^verbatim>\<open>Ejectable\<close>; a key that is absent raises \<^verbatim>\<open>KeyError\<close>.\<close>

record probes =
  check_binary_updates :: "update_info option"
  update_dialog :: wx_id
  check_seal :: bool
  detect_patch_set :: "string \<Rightarrow> patch_report"
  verify_network_connection :: bool
  patch_dialog :: int
  check_if_newer :: "string \<Rightarrow> bool"
  version_dialog :: int
  read_property :: "string \<Rightarrow> bool option"
  get_disk_path :: string
  find_apfs_physical_volume :: "string \<Rightarrow> string list"
  diskutil_info :: "string \<Rightarrow> (string \<rightharpoonup> bool)"
  boot_dialog :: int

text \<open>Property lists: the values the class stores are lists of strings; other values
  are carried along. A dictionary keeps its insertion order, and assigning to a key is
  \<^const>\<open>AList.update\<close>.\<close>

datatype plist_value = PString string | PArray "string list" | PBool bool

type_synonym plist = "(string \<times> plist_value) list"

text \<open>The commands the installer runs, each standing for its argument vector:
  \<^verbatim>\<open>["mkdir", "-p", d]\<close>, \<^verbatim>\<open>["rm", "-R", p]\<close>, \<^verbatim>\<open>["rm", p]\<close>,
  \<^verbatim>\<open>["ditto", src, dst]\<close>, \<^verbatim>\<open>["mv", src, dst]\<close>, \<^verbatim>\<open>["cp", src, dst]\<close>,
  \<^verbatim>\<open>["chmod", mode, p]\<close>, \<^verbatim>\<open>["chown", owner, p]\<close>, \<^verbatim>\<open>["ln", "-s", target, link]\<close>
  and \<^verbatim>\<open>["xattr", "-cr", p]\<close>.\<close>

datatype command =
    Mkdir_p string
  | Rm_R string
  | Rm string
  | Ditto string string
  | Mv string string
  | Cp string string
  | Chmod string string
  | Chown string string
  | Ln_s string string
  | Xattr_cr string

datatype event =
    Log string
  | Elevated command
  | Subprocess command
  | GetPrebootUuid
  | GlobKexts
  | PlistLoad string
  | PlistDump string
  | CheckBinaryUpdates
  | UpdateDialog string
  | Launch entry_point
  | WebOpen string
  | CheckSeal
  | DetectPatchSet string
  | VerifyNetwork
  | PatchDialog string string
  | ElevatedShell string
  | CheckIfNewer string
  | VersionDialog string string
  | ReadProperty string
  | GetDiskPath
  | FindApfsPhysicalVolume string
  | DiskutilInfo string
  | BootDialog
  | Raise string

record state =
  start_build_install :: bool
  trace :: "event list"

text \<open>Appending to the trace works on every extension of \<^typ>\<open>state\<close>: the installer
  below runs on a state that also holds the file system.\<close>

definition emit :: "event \<Rightarrow> 'a state_scheme \<Rightarrow> 'a state_scheme" where
  "emit e s = s\<lparr>trace := trace s @ [e]\<rparr>"

definition logging_info :: "string \<Rightarrow> 'a state_scheme \<Rightarrow> 'a state_scheme" where
  "logging_info msg s = emit (Log msg) s"

subsection \<open>Version check\<close>

text \<open>\<^verbatim>\<open>_determine_if_versions_match\<close>: the returned boolean and the state after it.\<close>

definition determine_if_versions_match :: "constants \<Rightarrow> probes \<Rightarrow> state \<Rightarrow> bool \<times> state" where
  "determine_if_versions_match c p s0 =
     (let s1 = logging_info ''- Checking booted vs installed OCLP Build'' s0 in
      case oclp_version c of
        None \<Rightarrow> (True, logging_info ''- Booted version not found'' s1)
      | Some booted \<Rightarrow>
          if booted = patcher_version c then (True, logging_info ''- Versions match'' s1)
          else if special_build c then
            (False, logging_info ''- Special build detected, assuming installed is older'' s1)
          else
            let s2 = emit (CheckIfNewer booted) s1 in
            if check_if_newer p booted then
              (True, logging_info ''- Installed version is newer than booted version'' s2)
            else
              let s3 = emit (VersionDialog booted (patcher_version c)) s2 in
              if version_dialog p = 0 then
                (False,
                 emit (Launch BUILD_OC)
                   ((logging_info ''- Launching GUI's Build/Install menu'' s3)
                      \<lparr>start_build_install := True\<rparr>))
              else (False, s3))"

subsection \<open>Boot disk check\<close>

text \<open>The loop over the physical stores: the first store that contains the token.\<close>

fun find_store :: "string \<Rightarrow> string list \<Rightarrow> string option" where
  "find_store root_disk [] = None"
| "find_store root_disk (disk # disks) =
     (if str_in root_disk disk then Some disk else find_store root_disk disks)"

text \<open>The two assignments to \<^verbatim>\<open>root_disk\<close>. \<^verbatim>\<open>split\<close> never returns an empty list.\<close>

definition normalize_disk :: "string \<Rightarrow> string" where
  "normalize_disk booted =
     ''disk'' @ (case py_split (py_strip booted ''disk'') ''s'' of [] \<Rightarrow> [] | x # _ \<Rightarrow> x)"

definition determine_if_boot_matches :: "constants \<Rightarrow> probes \<Rightarrow> state \<Rightarrow> state" where
  "determine_if_boot_matches c p s0 =
     (let s1 = logging_info ''- Determining if macOS drive matches boot drive'' s0;
          s2 = emit (ReadProperty ''AutoPatch_Notify_Mismatched_Disks'') s1 in
      if read_property p ''AutoPatch_Notify_Mismatched_Disks'' = Some False then
        logging_info ''- Skipping due to user preference'' s2
      else if host_is_hackintosh c then logging_info ''- Skipping due to hackintosh'' s2
      else case booted_oc_disk c of
        None \<Rightarrow> logging_info ''- Failed to find disk OpenCore launched from'' s2
      | Some booted \<Rightarrow>
          if booted = [] then logging_info ''- Failed to find disk OpenCore launched from'' s2
          else
            let root_disk = normalize_disk booted;
                s3 = logging_info (''  - Boot Drive: '' @ booted @ '' ('' @ root_disk @ '')'') s2;
                s4 = emit GetDiskPath s3;
                macOS_disk = get_disk_path p;
                s5 = logging_info (''  - macOS Drive: '' @ macOS_disk) s4;
                s6 = emit (FindApfsPhysicalVolume macOS_disk) s5;
                physical_stores = find_apfs_physical_volume p macOS_disk;
                s7 = logging_info (''  - APFS Physical Stores: '' @ concat physical_stores) s6 in
            case find_store root_disk physical_stores of
              Some disk \<Rightarrow>
                logging_info (''- Boot drive matches macOS drive ('' @ disk @ '')'') s7
            | None \<Rightarrow>
                let s8 = logging_info
                      ''- Boot Drive does not match macOS drive, checking if OpenCore is on a USB drive''
                      s7;
                    s9 = emit (DiskutilInfo root_disk) s8 in
                case diskutil_info p root_disk ''Ejectable'' of
                  None \<Rightarrow>
                    logging_info
                      ''- Unable to determine if boot disk is removable, skipping prompt'' s9
                | Some False \<Rightarrow>
                    logging_info ''- Boot Disk is not removable, skipping prompt'' s9
                | Some True \<Rightarrow>
                    let s10 = logging_info
                          ''- Boot Disk is ejectable, prompting user to install to internal'' s9;
                        s11 = emit BootDialog s10 in
                    if boot_dialog p = 0 then
                      emit (Launch BUILD_OC)
                        ((logging_info ''- Launching GUI's Build/Install menu'' s11)
                           \<lparr>start_build_install := True\<rparr>)
                    else s11)"

subsection \<open>The decision cycle\<close>

text \<open>The test of line 72: some key outside the \<^verbatim>\<open>Settings\<close> and \<^verbatim>\<open>Validation\<close>
  families whose value is \<^verbatim>\<open>True\<close>. The generator runs over the keys and looks each
  one up.\<close>

definition is_patch_key :: "string \<Rightarrow> bool" where
  "is_patch_key patch =
     (\<not> startswith patch ''Settings'' \<and> \<not> startswith patch ''Validation'')"

definition any_patch :: "patch_report \<Rightarrow> bool" where
  "any_patch patches =
     list_ex (\<lambda>patch. is_patch_key patch \<and> map_of patches patch = Some True)
       (map fst patches)"

text \<open>The bullet list of lines 81 to 84.\<close>

definition patch_string :: "patch_report \<Rightarrow> string" where
  "patch_string patches =
     concat (map (\<lambda>patch.
        if map_of patches patch = Some True \<and> is_patch_key patch
        then ''- '' @ patch @ newline else [])
      (map fst patches))"

definition args_string :: "constants \<Rightarrow> string" where
  "args_string c =
     (case launcher_script c of
        None \<Rightarrow> [CHR 0x27] @ launcher_binary c @ [CHR 0x27] @ '' --gui_patch''
      | Some script \<Rightarrow> launcher_binary c @ '' '' @ script @ '' --gui_patch'')"

definition warning_str :: "constants \<Rightarrow> probes \<Rightarrow> string" where
  "warning_str c p =
     (if \<not> verify_network_connection p
      then ''WARNING: unable to verify the latest release of '' @ patcher_version c
      else [])"

text \<open>Lines 127 and 128, the tail of the cycle.\<close>

definition check_versions_then_boot :: "constants \<Rightarrow> probes \<Rightarrow> state \<Rightarrow> state" where
  "check_versions_then_boot c p s =
     (case determine_if_versions_match c p s of
        (True, s') \<Rightarrow> determine_if_boot_matches c p s'
      | (False, s') \<Rightarrow> s')"

text \<open>Lines 75 to 121: the branch taken when \<^verbatim>\<open>patches\<close> is still the dictionary. A
  report without the key \<^verbatim>\<open>Validation: Patching Possible\<close> raises \<^verbatim>\<open>KeyError\<close>.\<close>

definition patch_branch :: "constants \<Rightarrow> probes \<Rightarrow> patch_report \<Rightarrow> state \<Rightarrow> state" where
  "patch_branch c p patches s0 =
     (let s1 = logging_info
            ''- Detected applicable patches, determining whether possible to patch'' s0 in
      case map_of patches ''Validation: Patching Possible'' of
        None \<Rightarrow> emit (Raise ''KeyError'') s1
      | Some False \<Rightarrow> logging_info ''- Cannot run patching'' s1
      | Some True \<Rightarrow>
          let s2 = logging_info
                ''- Determined patching is possible, checking for OCLP updates'' s1;
              s3 = logging_info
                ''- No new binaries found on Github, proceeding with patching'' s2;
              s4 = emit VerifyNetwork s3;
              s5 = emit (PatchDialog (patch_string patches) (warning_str c p)) s4 in
          if patch_dialog p = 0 then emit (ElevatedShell (args_string c)) s5 else s5)"

definition start_auto_patch :: "constants \<Rightarrow> probes \<Rightarrow> state \<Rightarrow> state" where
  "start_auto_patch c p s0 =
     (let s1 = logging_info ''- Starting Automatic Patching'' s0 in
      if \<not> wxpython_variant c then
        logging_info ''- Auto Patch option is not supported on TUI, please use GUI'' s1
      else
        let s2 = emit CheckBinaryUpdates s1 in
        case check_binary_updates p of
          Some dict \<Rightarrow>
            let s3 = logging_info (''- Found new version: '' @ Version dict) s2;
                s4 = emit (UpdateDialog (Version dict)) s3 in
            (case update_dialog p of
               ID_YES \<Rightarrow> emit (Launch UPDATE_APP) s4
             | ID_NO \<Rightarrow> emit (WebOpen (Github_Link dict)) s4
             | ID_CANCEL \<Rightarrow> s4)
        | None \<Rightarrow>
            let s3 = emit CheckSeal s2 in
            if check_seal p then
              let s4 = logging_info ''- Detected Snapshot seal intact, detecting patches'' s3;
                  s5 = emit (DetectPatchSet (real_model c)) s4;
                  detected = detect_patch_set p (real_model c);
                  patches = (if \<not> any_patch detected then [] else detected) in
              if patches \<noteq> [] then patch_branch c p patches s5
              else check_versions_then_boot c p (logging_info ''- No patches detected'' s5)
            else
              check_versions_then_boot c p
                (logging_info ''- Detected Snapshot seal not intact, skipping'' s3))"

subsection \<open>The file system and the commands\<close>

text \<open>The installer acts on a handful of named paths, so the file system is a map from
  absolute paths to nodes: a plain directory, a directory tree taken as a whole (an
  application bundle, named by its payload), a regular file with its content, mode and
  owner, or a symbolic link with its target.\<close>

datatype content = Plist_data plist | Raw_data string

datatype node = Dir | Tree string | File content string string | Link string

type_synonym fs = "string \<rightharpoonup> node"

record world = state +
  files :: fs

text \<open>\<^verbatim>\<open>Path(p)\<close> drops trailing slashes, and \<^verbatim>\<open>Path(p).exists()\<close> follows a symbolic
  link (here: one level), so a link whose target is missing does not exist.\<close>

definition strip_slash :: "string \<Rightarrow> string" where
  "strip_slash p = rev (dropWhile (\<lambda>c. c = CHR ''/'') (rev p))"

definition path_exists :: "fs \<Rightarrow> string \<Rightarrow> bool" where
  "path_exists fs p =
     (case fs (strip_slash p) of
        None \<Rightarrow> False
      | Some (Link target) \<Rightarrow> fs target \<noteq> None
      | Some n \<Rightarrow> True)"

definition basename :: "string \<Rightarrow> string" where
  "basename p = (case rev (py_split p ''/'') of [] \<Rightarrow> [] | x # xs \<Rightarrow> x)"

text \<open>Where \<^verbatim>\<open>cp src dst\<close> writes: into the directory when \<^verbatim>\<open>dst\<close> is written with a
  trailing slash, as the installer does.\<close>

definition cp_target :: "string \<Rightarrow> string \<Rightarrow> string" where
  "cp_target src dst =
     (if dst \<noteq> [] \<and> last dst = CHR ''/'' then strip_slash dst @ ''/'' @ basename src else dst)"

text \<open>The effect of one command of the operating system on the file system. A command
  that fails (a missing source, \<^verbatim>\<open>rm\<close> without \<^verbatim>\<open>-R\<close> on a directory, \<^verbatim>\<open>cp\<close> into a
  directory that is missing, \<^verbatim>\<open>ln -s\<close> onto an occupied path) changes nothing.
  \<^verbatim>\<open>ditto\<close> onto an existing tree is taken as a replacement; the installer removes the
  destination first. \<^verbatim>\<open>cp\<close> run by the elevated user creates a file owned by
  \<^verbatim>\<open>root\<close> and keeps the mode and owner of a file it overwrites. Extended attributes are
  not part of the nodes, so \<^verbatim>\<open>xattr -cr\<close> changes nothing here.\<close>

fun exec :: "command \<Rightarrow> fs \<Rightarrow> fs" where
  "exec (Mkdir_p d) fs = (if fs (strip_slash d) = None then fs(strip_slash d \<mapsto> Dir) else fs)"
| "exec (Rm_R p) fs = fs(p := None)"
| "exec (Rm p) fs =
     (case fs p of
        Some (File c m ow) \<Rightarrow> fs(p := None)
      | Some (Link t) \<Rightarrow> fs(p := None)
      | _ \<Rightarrow> fs)"
| "exec (Ditto src dst) fs = (case fs src of None \<Rightarrow> fs | Some n \<Rightarrow> fs(dst \<mapsto> n))"
| "exec (Mv src dst) fs = (case fs src of None \<Rightarrow> fs | Some n \<Rightarrow> (fs(src := None))(dst \<mapsto> n))"
| "exec (Cp src dst) fs =
     (case fs src of
        Some (File c m ow) \<Rightarrow>
          if dst \<noteq> [] \<and> last dst = CHR ''/'' \<and> \<not> path_exists fs dst then fs
          else (case fs (cp_target src dst) of
                  None \<Rightarrow> fs(cp_target src dst \<mapsto> File c m ''root'')
                | Some (File c' m' ow') \<Rightarrow> fs(cp_target src dst \<mapsto> File c m' ow')
                | _ \<Rightarrow> fs)
      | _ \<Rightarrow> fs)"
| "exec (Chmod mode p) fs =
     (case fs p of Some (File c m ow) \<Rightarrow> fs(p \<mapsto> File c mode ow) | _ \<Rightarrow> fs)"
| "exec (Chown owner p) fs =
     (case fs p of Some (File c m ow) \<Rightarrow> fs(p \<mapsto> File c m owner) | _ \<Rightarrow> fs)"
| "exec (Ln_s target link) fs = (if fs link = None then fs(link \<mapsto> Link target) else fs)"
| "exec (Xattr_cr p) fs = fs"

text \<open>Modelled from the spec: \<^verbatim>\<open>utilities.elevated\<close> and \<^verbatim>\<open>utilities.process_status\<close>
  are not in the source file. The command runs with administrator rights, its exit status
  is checked and logged, and the installer goes on whatever the status is (sections 4.2
  and 7); the status line is not part of the trace.\<close>

definition elevated :: "command \<Rightarrow> world \<Rightarrow> world" where
  "elevated cmd w = (emit (Elevated cmd) w)\<lparr>files := exec cmd (files w)\<rparr>"

text \<open>\<^verbatim>\<open>subprocess.run\<close> of a command, without elevation.\<close>

definition subprocess_run :: "command \<Rightarrow> world \<Rightarrow> world" where
  "subprocess_run cmd w = (emit (Subprocess cmd) w)\<lparr>files := exec cmd (files w)\<rparr>"

subsection \<open>The monitor daemon\<close>







subsection \<open>The installer\<close>

definition support_dir :: string where
  "support_dir = ''/Library/Application Support/Dortania''"

definition bundle_path :: string where
  "bundle_path = ''/Library/Application Support/Dortania/OpenCore-Patcher.app''"

definition agent_plist :: string where
  "agent_plist = ''/Library/LaunchAgents/com.dortania.opencore-legacy-patcher.auto-patch.plist''"

definition daemon_plist :: string where
  "daemon_plist =
     ''/Library/LaunchDaemons/com.dortania.opencore-legacy-patcher.rsr-monitor.plist''"

definition alias_path :: string where
  "alias_path = ''/Applications/OpenCore-Patcher.app''"

text \<open>\<^verbatim>\<open>str(launcher_binary).split("/Contents/MacOS/OpenCore-Patcher")[0]\<close>.\<close>

definition source_bundle :: "constants \<Rightarrow> string" where
  "source_bundle c =
     (case py_split (launcher_binary c) ''/Contents/MacOS/OpenCore-Patcher'' of
        [] \<Rightarrow> [] | x # xs \<Rightarrow> x)"





text \<open>Lines 336 to 338: the alias in \<^verbatim>\<open>/Applications\<close>.\<close>

definition make_alias :: "world \<Rightarrow> world" where
  "make_alias w =
     (if \<not> path_exists (files w) alias_path then
        elevated (Ln_s bundle_path alias_path) (logging_info ''- Making app alias'' w)
      else w)"


subsection \<open>Observations on runs, and a sample host\<close>

text \<open>The events a run appends to the trace it started from.\<close>

definition events_since :: "'a state_scheme \<Rightarrow> 'a state_scheme \<Rightarrow> event list" where
  "events_since s s' = drop (length (trace s)) (trace s')"

definition initial_state :: state where
  "initial_state = \<lparr>start_build_install = False, trace = []\<rparr>"

text \<open>The patch-confirmation prompt and the elevated patch command.\<close>

fun patch_action :: "event \<Rightarrow> bool" where
  "patch_action (PatchDialog a b) = True"
| "patch_action (ElevatedShell a) = True"
| "patch_action e = False"

text \<open>A host on which the concrete runs below are evaluated: the application is started
  from a download folder, OpenCore was booted from \<^verbatim>\<open>disk0s1\<close>, and the detection
  reports one setting, one patch that does not apply and the validation key.\<close>

definition sample_constants :: constants where
  "sample_constants =
     \<lparr>wxpython_variant = True, patcher_version = ''0.6.8'', special_build = False,
      host_is_hackintosh = False, booted_oc_disk = Some ''disk0s1'',
      oclp_version = Some ''0.6.8'', real_model = ''MacBookPro11,1'',
      launcher_binary =
        ''/Users/admin/Downloads/OpenCore-Patcher.app/Contents/MacOS/OpenCore-Patcher'',
      launcher_script = None,
      auto_patch_launch_agent_path =
        ''/payloads/com.dortania.opencore-legacy-patcher.auto-patch.plist'',
      rsr_monitor_launch_daemon_path =
        ''/payloads/com.dortania.opencore-legacy-patcher.rsr-monitor.plist''\<rparr>"

definition sample_report :: patch_report where
  "sample_report =
     [(''Settings: Requires AMFI exemption'', True),
      (''Graphics: Intel Ivy Bridge'', False),
      (''Validation: Patching Possible'', True)]"

definition sample_probes :: probes where
  "sample_probes =
     \<lparr>check_binary_updates = None, update_dialog = ID_CANCEL, check_seal = True,
      detect_patch_set = (\<lambda>model. sample_report), verify_network_connection = True,
      patch_dialog = 0, check_if_newer = (\<lambda>v. False), version_dialog = 0,
      read_property = (\<lambda>k. None), get_disk_path = ''disk1s5s1'',
      find_apfs_physical_volume = (\<lambda>d. [''disk0s2'', ''disk1s1'']),
      diskutil_info = (\<lambda>d. [''Ejectable'' \<mapsto> True]), boot_dialog = 0\<rparr>"











fun written :: "command \<Rightarrow> string list" where
  "written (Mkdir_p d) = [strip_slash d]"
| "written (Rm_R p) = [p]"
| "written (Rm p) = [p]"
| "written (Ditto src dst) = [dst]"
| "written (Mv src dst) = [src, dst]"
| "written (Cp src dst) = [cp_target src dst]"
| "written (Chmod mode p) = [p]"
| "written (Chown owner p) = [p]"
| "written (Ln_s target link) = [link]"
| "written (Xattr_cr p) = []"





section \<open>Properties of the decision cycle\<close>

subsection \<open>Auxiliary facts\<close>

lemma find_store_None: "find_store r ds = None \<longleftrightarrow> (\<forall>d\<in>set ds. \<not> str_in r d)"
  by (induction ds) auto

lemma any_patch_iff:
  "any_patch r \<longleftrightarrow>
     (\<exists>patch \<in> set (map fst r). is_patch_key patch \<and> map_of r patch = Some True)"
  by (simp add: any_patch_def list_ex_iff)

lemma versions_events:
  "\<exists>evs. trace (snd (determine_if_versions_match c p s)) = trace s @ evs \<and>
         list_all (\<lambda>e. \<not> patch_action e) evs"
  by (simp add: determine_if_versions_match_def Let_def emit_def logging_info_def
        split: option.splits)

lemma boot_events:
  "\<exists>evs. trace (determine_if_boot_matches c p s) = trace s @ evs \<and>
         list_all (\<lambda>e. \<not> patch_action e) evs"
  by (simp add: determine_if_boot_matches_def Let_def emit_def logging_info_def
        split: option.splits bool.splits)

lemma tail_events:
  "\<exists>evs. trace (check_versions_then_boot c p s) = trace s @ evs \<and>
         list_all (\<lambda>e. \<not> patch_action e) evs"
proof -
  obtain b s' where r: "determine_if_versions_match c p s = (b, s')"
    by (cases "determine_if_versions_match c p s")
  from versions_events[of c p s] r obtain e1 where
    e1: "trace s' = trace s @ e1" "list_all (\<lambda>e. \<not> patch_action e) e1" by auto
  from boot_events[of c p s'] obtain e2 where
    e2: "trace (determine_if_boot_matches c p s') = trace s' @ e2"
        "list_all (\<lambda>e. \<not> patch_action e) e2" by auto
  show ?thesis
  proof (cases b)
    case True
    then have "trace (check_versions_then_boot c p s) = trace s @ (e1 @ e2)"
      using r e1 e2 by (simp add: check_versions_then_boot_def)
    moreover have "list_all (\<lambda>e. \<not> patch_action e) (e1 @ e2)" using e1 e2 by simp
    ultimately show ?thesis by blast
  next
    case False
    then show ?thesis using r e1 by (simp add: check_versions_then_boot_def)
  qed
qed

lemma tail_since:
  assumes "trace s' = trace s @ pre" and "list_all (\<lambda>e. \<not> patch_action e) pre"
  shows "list_all (\<lambda>e. \<not> patch_action e) (events_since s (check_versions_then_boot c p s'))"
proof -
  from tail_events[of c p s'] obtain evs where
    "trace (check_versions_then_boot c p s') = trace s' @ evs"
    "list_all (\<lambda>e. \<not> patch_action e) evs" by auto
  then show ?thesis using assms by (simp add: events_since_def)
qed

lemma normalize_disk0s1: "normalize_disk ''disk0s1'' = ''disk0''"
  by (simp add: normalize_disk_def py_strip_def py_split_def)


lemma normalize_disk2s1: "normalize_disk ''disk2s1'' = ''disk2''"
  by (simp add: normalize_disk_def py_strip_def py_split_def)

subsection \<open>C2: a report without an applicable patch\<close>

text \<open>
  C2. Whenever every key of the detected report that is outside the \<^verbatim>\<open>Settings\<close> and
  \<^verbatim>\<open>Validation\<close> families maps to \<^verbatim>\<open>False\<close>, a cycle started in any state presents no
  patch-confirmation prompt and runs no elevated patch command; and when the cycle
  reaches the detection (GUI build, no update found, seal intact), what it does after
  logging "No patches detected" is exactly the version check followed, on a match, by
  the boot-disk check.
\<close>

theorem nonactionable_report_falls_through:
  assumes "\<forall>patch \<in> set (map fst (detect_patch_set p (real_model c))).
             is_patch_key patch \<longrightarrow>
             map_of (detect_patch_set p (real_model c)) patch = Some False"
  shows "list_all (\<lambda>e. \<not> patch_action e) (events_since s (start_auto_patch c p s)) \<and>
         (wxpython_variant c \<and> check_binary_updates p = None \<and> check_seal p \<longrightarrow>
            start_auto_patch c p s =
              check_versions_then_boot c p
                (s\<lparr>trace := trace s @
                   [Log ''- Starting Automatic Patching'', CheckBinaryUpdates, CheckSeal,
                    Log ''- Detected Snapshot seal intact, detecting patches'',
                    DetectPatchSet (real_model c), Log ''- No patches detected'']\<rparr>))"
proof -
  have na: "\<not> any_patch (detect_patch_set p (real_model c))"
    using assms by (auto simp: any_patch_iff)
  have one: "list_all (\<lambda>e. \<not> patch_action e) (events_since s (start_auto_patch c p s))"
  proof (cases "wxpython_variant c")
    case False
    then show ?thesis
      by (simp add: start_auto_patch_def Let_def emit_def logging_info_def events_since_def)
  next
    case gui: True
    show ?thesis
    proof (cases "check_binary_updates p")
      case (Some d)
      then show ?thesis using gui
        by (simp add: start_auto_patch_def Let_def emit_def logging_info_def events_since_def
              split: wx_id.splits)
    next
      case None
      then show ?thesis using gui na
        by (auto simp: start_auto_patch_def Let_def emit_def logging_info_def
              intro!: tail_since)
    qed
  qed
  have two: "wxpython_variant c \<and> check_binary_updates p = None \<and> check_seal p \<longrightarrow>
            start_auto_patch c p s =
              check_versions_then_boot c p
                (s\<lparr>trace := trace s @
                   [Log ''- Starting Automatic Patching'', CheckBinaryUpdates, CheckSeal,
                    Log ''- Detected Snapshot seal intact, detecting patches'',
                    DetectPatchSet (real_model c), Log ''- No patches detected'']\<rparr>)"
    by (simp add: start_auto_patch_def Let_def na emit_def logging_info_def)
  show ?thesis using one two by blast
qed

text \<open>On the sample host the report has no applicable patch, the versions agree and the
  boot disk is one of the physical stores: the whole cycle, event by event.\<close>

theorem nonactionable_report_falls_through_witness:
  "list_all (\<lambda>e. \<not> patch_action e)
     (events_since initial_state (start_auto_patch sample_constants sample_probes initial_state)) \<and>
   start_auto_patch sample_constants sample_probes initial_state =
     check_versions_then_boot sample_constants sample_probes
       (initial_state\<lparr>trace :=
          [Log ''- Starting Automatic Patching'', CheckBinaryUpdates, CheckSeal,
           Log ''- Detected Snapshot seal intact, detecting patches'',
           DetectPatchSet ''MacBookPro11,1'', Log ''- No patches detected'']\<rparr>) \<and>
   trace (start_auto_patch sample_constants sample_probes initial_state) =
     [Log ''- Starting Automatic Patching'', CheckBinaryUpdates, CheckSeal,
      Log ''- Detected Snapshot seal intact, detecting patches'',
      DetectPatchSet ''MacBookPro11,1'', Log ''- No patches detected'',
      Log ''- Checking booted vs installed OCLP Build'', Log ''- Versions match'',
      Log ''- Determining if macOS drive matches boot drive'',
      ReadProperty ''AutoPatch_Notify_Mismatched_Disks'',
      Log ''  - Boot Drive: disk0s1 (disk0)'', GetDiskPath,
      Log ''  - macOS Drive: disk1s5s1'', FindApfsPhysicalVolume ''disk1s5s1'',
      Log ''  - APFS Physical Stores: disk0s2disk1s1'',
      Log ''- Boot drive matches macOS drive (disk0s2)'']"
proof -
  have hyp: "\<forall>patch \<in> set (map fst (detect_patch_set sample_probes (real_model sample_constants))).
             is_patch_key patch \<longrightarrow>
             map_of (detect_patch_set sample_probes (real_model sample_constants)) patch
               = Some False"
    by (simp add: sample_probes_def sample_report_def is_patch_key_def startswith_def)
  have run: "trace (check_versions_then_boot sample_constants sample_probes
       (initial_state\<lparr>trace :=
          [Log ''- Starting Automatic Patching'', CheckBinaryUpdates, CheckSeal,
           Log ''- Detected Snapshot seal intact, detecting patches'',
           DetectPatchSet ''MacBookPro11,1'', Log ''- No patches detected'']\<rparr>)) =
     [Log ''- Starting Automatic Patching'', CheckBinaryUpdates, CheckSeal,
      Log ''- Detected Snapshot seal intact, detecting patches'',
      DetectPatchSet ''MacBookPro11,1'', Log ''- No patches detected'',
      Log ''- Checking booted vs installed OCLP Build'', Log ''- Versions match'',
      Log ''- Determining if macOS drive matches boot drive'',
      ReadProperty ''AutoPatch_Notify_Mismatched_Disks'',
      Log ''  - Boot Drive: disk0s1 (disk0)'', GetDiskPath,
      Log ''  - macOS Drive: disk1s5s1'', FindApfsPhysicalVolume ''disk1s5s1'',
      Log ''  - APFS Physical Stores: disk0s2disk1s1'',
      Log ''- Boot drive matches macOS drive (disk0s2)'']"
    by (simp add: check_versions_then_boot_def determine_if_versions_match_def
          determine_if_boot_matches_def Let_def emit_def logging_info_def
          sample_constants_def sample_probes_def initial_state_def normalize_disk0s1
          str_in_def sublist_code)
  have pre: "wxpython_variant sample_constants \<and> check_binary_updates sample_probes = None \<and>
             check_seal sample_probes \<and> real_model sample_constants = ''MacBookPro11,1'' \<and>
             trace initial_state = []"
    by (simp add: sample_constants_def sample_probes_def initial_state_def)
  note th = nonactionable_report_falls_through [OF hyp, of initial_state]
  have a: "list_all (\<lambda>e. \<not> patch_action e)
     (events_since initial_state (start_auto_patch sample_constants sample_probes initial_state))"
    by (rule conjunct1 [OF th])
  have b: "start_auto_patch sample_constants sample_probes initial_state =
     check_versions_then_boot sample_constants sample_probes
       (initial_state\<lparr>trace :=
          [Log ''- Starting Automatic Patching'', CheckBinaryUpdates, CheckSeal,
           Log ''- Detected Snapshot seal intact, detecting patches'',
           DetectPatchSet ''MacBookPro11,1'', Log ''- No patches detected'']\<rparr>)"
    using conjunct2 [OF th] pre by simp
  show ?thesis
    by (intro conjI, rule a, rule b, subst b, rule run)
qed

subsection \<open>C3: special builds\<close>

text \<open>
  C3. When a booted version is recorded, it differs from the installed version and the
  build is a special build, \<^verbatim>\<open>_determine_if_versions_match\<close> returns \<^verbatim>\<open>False\<close> after two
  log lines: the comparator \<^verbatim>\<open>check_if_newer\<close> is not called and no answer of any
  collaborator enters the result.
\<close>

theorem special_build_versions_mismatch:
  assumes "oclp_version c = Some booted"
    and "booted \<noteq> patcher_version c"
    and "special_build c"
  shows "determine_if_versions_match c p s =
           (False, s\<lparr>trace := trace s @
              [Log ''- Checking booted vs installed OCLP Build'',
               Log ''- Special build detected, assuming installed is older'']\<rparr>)"
  using assms
  by (simp add: determine_if_versions_match_def Let_def emit_def logging_info_def)

text \<open>Booted 0.6.7, installed 0.6.8, special build, and a comparator that would answer
  "newer" for every version.\<close>

theorem special_build_versions_mismatch_witness:
  "determine_if_versions_match
     (sample_constants\<lparr>special_build := True, oclp_version := Some ''0.6.7''\<rparr>)
     (sample_probes\<lparr>check_if_newer := (\<lambda>v. True)\<rparr>) initial_state =
   (False, \<lparr>start_build_install = False,
            trace = [Log ''- Checking booted vs installed OCLP Build'',
                     Log ''- Special build detected, assuming installed is older'']\<rparr>)"
  using special_build_versions_mismatch
    [of "sample_constants\<lparr>special_build := True, oclp_version := Some ''0.6.7''\<rparr>" "''0.6.7''"
        "sample_probes\<lparr>check_if_newer := (\<lambda>v. True)\<rparr>" initial_state]
  by (simp add: sample_constants_def initial_state_def)

subsection \<open>C7: the notification preference\<close>

text \<open>
  C7. When the preference \<^verbatim>\<open>AutoPatch_Notify_Mismatched_Disks\<close> reads \<^verbatim>\<open>False\<close>,
  \<^verbatim>\<open>_determine_if_boot_matches\<close> reads the preference, logs and returns: whatever the
  disks are, it asks no disk probe, shows no prompt and leaves \<^verbatim>\<open>start_build_install\<close>
  as it was.
\<close>

theorem boot_check_skipped_by_preference:
  assumes "read_property p ''AutoPatch_Notify_Mismatched_Disks'' = Some False"
  shows "determine_if_boot_matches c p s =
           s\<lparr>trace := trace s @
              [Log ''- Determining if macOS drive matches boot drive'',
               ReadProperty ''AutoPatch_Notify_Mismatched_Disks'',
               Log ''- Skipping due to user preference'']\<rparr>"
  using assms
  by (simp add: determine_if_boot_matches_def Let_def emit_def logging_info_def)

text \<open>The preference switched off on a host whose boot disk is external, ejectable and
  not among the physical stores.\<close>

theorem boot_check_skipped_by_preference_witness:
  "determine_if_boot_matches (sample_constants\<lparr>booted_oc_disk := Some ''disk2s1''\<rparr>)
     (sample_probes\<lparr>read_property := (\<lambda>k. Some False)\<rparr>) initial_state =
   \<lparr>start_build_install = False,
    trace = [Log ''- Determining if macOS drive matches boot drive'',
             ReadProperty ''AutoPatch_Notify_Mismatched_Disks'',
             Log ''- Skipping due to user preference'']\<rparr>"
  using boot_check_skipped_by_preference
    [of "sample_probes\<lparr>read_property := (\<lambda>k. Some False)\<rparr>"
        "sample_constants\<lparr>booted_oc_disk := Some ''disk2s1''\<rparr>" initial_state]
  by (simp add: initial_state_def)

subsection \<open>C4: the removability lookup\<close>

text \<open>
  C4. Suppose the boot-disk check is not skipped and no physical store contains the
  normalized boot-disk token. Then the relocation prompt is presented exactly when the
  disk-info reply has the key \<^verbatim>\<open>Ejectable\<close> with value \<^verbatim>\<open>True\<close>. When the key is absent
  the function ends with the log line "Unable to determine ...", and when the value is
  \<^verbatim>\<open>False\<close> with "Boot Disk is not removable ..."; in both cases nothing is launched and
  \<^verbatim>\<open>start_build_install\<close> is unchanged.
\<close>

theorem boot_prompt_only_if_ejectable:
  assumes "read_property p ''AutoPatch_Notify_Mismatched_Disks'' \<noteq> Some False"
    and "\<not> host_is_hackintosh c"
    and "booted_oc_disk c = Some booted" and "booted \<noteq> []"
    and "\<forall>disk \<in> set (find_apfs_physical_volume p (get_disk_path p)).
           \<not> str_in (normalize_disk booted) disk"
  shows "(BootDialog \<in> set (events_since s (determine_if_boot_matches c p s)) \<longleftrightarrow>
            diskutil_info p (normalize_disk booted) ''Ejectable'' = Some True) \<and>
         (diskutil_info p (normalize_disk booted) ''Ejectable'' = None \<longrightarrow>
            last (trace (determine_if_boot_matches c p s)) =
              Log ''- Unable to determine if boot disk is removable, skipping prompt'' \<and>
            start_build_install (determine_if_boot_matches c p s) = start_build_install s \<and>
            Launch BUILD_OC \<notin> set (events_since s (determine_if_boot_matches c p s))) \<and>
         (diskutil_info p (normalize_disk booted) ''Ejectable'' = Some False \<longrightarrow>
            last (trace (determine_if_boot_matches c p s)) =
              Log ''- Boot Disk is not removable, skipping prompt'' \<and>
            start_build_install (determine_if_boot_matches c p s) = start_build_install s \<and>
            Launch BUILD_OC \<notin> set (events_since s (determine_if_boot_matches c p s)))"
proof -
  have none: "find_store (normalize_disk booted)
                (find_apfs_physical_volume p (get_disk_path p)) = None"
    using assms(5) by (simp add: find_store_None)
  show ?thesis
    using assms(1-4) none
    by (cases "diskutil_info p (normalize_disk booted) ''Ejectable''")
       (simp_all add: determine_if_boot_matches_def Let_def emit_def logging_info_def
          events_since_def split: bool.splits)
qed

text \<open>Booted from \<^verbatim>\<open>disk2s1\<close>, physical stores \<^verbatim>\<open>["disk0s2"]\<close>, and a disk that is not
  ejectable: no prompt.\<close>

theorem boot_prompt_only_if_ejectable_witness:
  "BootDialog \<notin> set (events_since initial_state
      (determine_if_boot_matches (sample_constants\<lparr>booted_oc_disk := Some ''disk2s1''\<rparr>)
         (sample_probes\<lparr>find_apfs_physical_volume := (\<lambda>d. [''disk0s2'']),
                         diskutil_info := (\<lambda>d. [''Ejectable'' \<mapsto> False])\<rparr>)
         initial_state)) \<and>
   last (trace
      (determine_if_boot_matches (sample_constants\<lparr>booted_oc_disk := Some ''disk2s1''\<rparr>)
         (sample_probes\<lparr>find_apfs_physical_volume := (\<lambda>d. [''disk0s2'']),
                         diskutil_info := (\<lambda>d. [''Ejectable'' \<mapsto> False])\<rparr>)
         initial_state)) = Log ''- Boot Disk is not removable, skipping prompt''"
  using boot_prompt_only_if_ejectable
    [of "sample_probes\<lparr>find_apfs_physical_volume := (\<lambda>d. [''disk0s2'']),
                         diskutil_info := (\<lambda>d. [''Ejectable'' \<mapsto> False])\<rparr>"
        "sample_constants\<lparr>booted_oc_disk := Some ''disk2s1''\<rparr>" "''disk2s1''" initial_state]
  by (simp add: sample_constants_def sample_probes_def normalize_disk2s1 str_in_def
        sublist_code)

subsection \<open>C8: \<^verbatim>\<open>disk0s1\<close> against \<^verbatim>\<open>disk0s2\<close>\<close>

text \<open>
  C8. With the booted disk \<^verbatim>\<open>disk0s1\<close> and the physical stores
  \<^verbatim>\<open>["disk0s2", "disk1s1"]\<close>, and the check not skipped, the identifier is normalized to
  \<^verbatim>\<open>disk0\<close>, the store \<^verbatim>\<open>disk0s2\<close> is found to contain it, and the function ends with
  "Boot drive matches macOS drive (disk0s2)": no disk-info lookup, no prompt, and
  \<^verbatim>\<open>start_build_install\<close> unchanged.
\<close>

theorem boot_disk0s1_matches_disk0s2:
  assumes "read_property p ''AutoPatch_Notify_Mismatched_Disks'' \<noteq> Some False"
    and "\<not> host_is_hackintosh c"
    and "booted_oc_disk c = Some ''disk0s1''"
    and "find_apfs_physical_volume p (get_disk_path p) = [''disk0s2'', ''disk1s1'']"
  shows "normalize_disk ''disk0s1'' = ''disk0'' \<and>
         find_store ''disk0'' [''disk0s2'', ''disk1s1''] = Some ''disk0s2'' \<and>
         events_since s (determine_if_boot_matches c p s) =
           [Log ''- Determining if macOS drive matches boot drive'',
            ReadProperty ''AutoPatch_Notify_Mismatched_Disks'',
            Log ''  - Boot Drive: disk0s1 (disk0)'',
            GetDiskPath,
            Log (''  - macOS Drive: '' @ get_disk_path p),
            FindApfsPhysicalVolume (get_disk_path p),
            Log ''  - APFS Physical Stores: disk0s2disk1s1'',
            Log ''- Boot drive matches macOS drive (disk0s2)''] \<and>
         start_build_install (determine_if_boot_matches c p s) = start_build_install s"
proof -
  have f: "find_store ''disk0'' [''disk0s2'', ''disk1s1''] = Some ''disk0s2''"
    by (simp add: str_in_def sublist_code)
  show ?thesis
    using assms normalize_disk0s1 f
    by (simp add: determine_if_boot_matches_def Let_def emit_def logging_info_def
          events_since_def)
qed

theorem boot_disk0s1_matches_disk0s2_witness:
  "events_since initial_state
     (determine_if_boot_matches sample_constants sample_probes initial_state) =
     [Log ''- Determining if macOS drive matches boot drive'',
      ReadProperty ''AutoPatch_Notify_Mismatched_Disks'',
      Log ''  - Boot Drive: disk0s1 (disk0)'',
      GetDiskPath,
      Log ''  - macOS Drive: disk1s5s1'',
      FindApfsPhysicalVolume ''disk1s5s1'',
      Log ''  - APFS Physical Stores: disk0s2disk1s1'',
      Log ''- Boot drive matches macOS drive (disk0s2)''] \<and>
   start_build_install
     (determine_if_boot_matches sample_constants sample_probes initial_state) = False"
  using boot_disk0s1_matches_disk0s2 [of sample_probes sample_constants initial_state]
  by (simp add: sample_constants_def sample_probes_def initial_state_def)

subsection \<open>C10: the comparison is a substring test\<close>



section \<open>Properties of the monitor daemon builder\<close>


subsection \<open>C9: descriptors that are missing or do not load\<close>




subsection \<open>C6: no extension with the marker key\<close>



section \<open>Properties of the installer\<close>

subsection \<open>Paths, traces and frames of the blocks\<close>

lemma split_acc_first: "split_acc sep acc s = x # xs \<Longrightarrow> prefix x (acc @ s)"
proof (induction sep acc s arbitrary: x xs rule: split_acc.induct)
  case (1 sep acc)
  then show ?case by simp
next
  case (2 sep acc c cs)
  show ?case
  proof (cases "sep \<noteq> [] \<and> prefix sep (c # cs)")
    case True
    with "2.prems" have "x = acc" by simp
    then show ?thesis by simp
  next
    case False
    with "2.prems" have "split_acc sep (acc @ [c]) cs = x # xs" by auto
    with "2.IH"(2)[OF False] have "prefix x ((acc @ [c]) @ cs)" by blast
    then show ?thesis by simp
  qed
qed

lemma split_acc_nonempty: "split_acc sep acc s \<noteq> []"
  by (induction sep acc s rule: split_acc.induct) auto

lemma source_bundle_prefix: "prefix (source_bundle c) (launcher_binary c)"
proof -
  obtain x xs where e: "py_split (launcher_binary c) ''/Contents/MacOS/OpenCore-Patcher'' = x # xs"
    using split_acc_nonempty[of "''/Contents/MacOS/OpenCore-Patcher''" "[]" "launcher_binary c"]
    by (cases "py_split (launcher_binary c) ''/Contents/MacOS/OpenCore-Patcher''")
       (auto simp: py_split_def)
  then have "prefix x ([] @ launcher_binary c)"
    unfolding py_split_def by (rule split_acc_first)
  with e show ?thesis by (simp add: source_bundle_def)
qed

lemma source_not_bundle:
  assumes "\<not> startswith (launcher_binary c) ''/Library/Application Support/Dortania/''"
  shows "source_bundle c \<noteq> bundle_path"
proof
  assume "source_bundle c = bundle_path"
  with source_bundle_prefix[of c] have "prefix bundle_path (launcher_binary c)" by simp
  moreover have "prefix ''/Library/Application Support/Dortania/'' bundle_path"
    by (simp add: bundle_path_def)
  ultimately have "prefix ''/Library/Application Support/Dortania/'' (launcher_binary c)"
    by (rule prefix_order.trans[rotated])
  with assms show False by (simp add: startswith_def)
qed

lemma world_simps [simp]:
  "trace (elevated cmd w) = trace w @ [Elevated cmd]"
  "files (elevated cmd w) = exec cmd (files w)"
  "start_build_install (elevated cmd w) = start_build_install w"
  "trace (subprocess_run cmd w) = trace w @ [Subprocess cmd]"
  "files (subprocess_run cmd w) = exec cmd (files w)"
  "start_build_install (subprocess_run cmd w) = start_build_install w"
  "trace (logging_info m w) = trace w @ [Log m]"
  "files (logging_info m w) = files w"
  "start_build_install (logging_info m w) = start_build_install w"
  "trace (emit e w) = trace w @ [e]"
  "files (emit e w) = files w"
  "start_build_install (emit e w) = start_build_install w"
  by (simp_all add: elevated_def subprocess_run_def logging_info_def emit_def)


lemma strip_slash_literals [simp]:
  "strip_slash bundle_path = bundle_path"
  "strip_slash agent_plist = agent_plist"
  "strip_slash daemon_plist = daemon_plist"
  "strip_slash alias_path = alias_path"
  "strip_slash ''/Library/LaunchAgents/'' = ''/Library/LaunchAgents''"
  "strip_slash ''/Library/LaunchDaemons/'' = ''/Library/LaunchDaemons''"
  "strip_slash ''/Library/Application Support/Dortania'' = support_dir"
  by (simp_all add: strip_slash_def bundle_path_def agent_plist_def daemon_plist_def
        alias_path_def support_dir_def)








lemma exec_frame: "p \<notin> set (written cmd) \<Longrightarrow> exec cmd fs p = fs p"
  by (cases cmd) (auto split: option.splits node.splits)







lemma alias_files: "p \<noteq> alias_path \<Longrightarrow> files (make_alias w) p = files w p"
  by (simp add: make_alias_def exec_frame del: exec.simps)


lemma cp_target_agents [simp]:
  "cp_target src ''/Library/LaunchAgents/'' = ''/Library/LaunchAgents/'' @ basename src"
  by (simp add: cp_target_def)

lemma cp_target_daemons [simp]:
  "cp_target src ''/Library/LaunchDaemons/'' = ''/Library/LaunchDaemons/'' @ basename src"
  by (simp add: cp_target_def)





lemma literal_distinct [simp]:
  "bundle_path \<noteq> support_dir" "agent_plist \<noteq> support_dir" "alias_path \<noteq> support_dir"
  "agent_plist \<noteq> bundle_path" "alias_path \<noteq> bundle_path"
  "alias_path \<noteq> agent_plist" "alias_path \<noteq> daemon_plist"
  "alias_path \<noteq> ''/Library/LaunchAgents''" "alias_path \<noteq> ''/Library/LaunchDaemons''"
  "alias_path \<noteq> ''/Library/LaunchAgents/'' @ x" "alias_path \<noteq> ''/Library/LaunchDaemons/'' @ x"
  "alias_path \<noteq> ''/Library/Application Support/Dortania/'' @ x"
  "agent_plist \<noteq> ''/Library/Application Support/Dortania/'' @ x"
  "alias_path \<noteq> ''/Library/Application Support/Dortania''"
  "alias_path \<noteq> ''/Library/LaunchAgents/''" "alias_path \<noteq> ''/Library/LaunchDaemons/''"
  by (simp_all add: bundle_path_def support_dir_def agent_plist_def alias_path_def
        daemon_plist_def)






subsection \<open>C1: targets that are already in place\<close>




end
